theory Spec2Isabelle
  imports Complex_Main
begin

section \<open>JavaScript values\<close>

text \<open>
  The functions of \<^verbatim>\<open>src/index.js\<close> verified here receive what \<^verbatim>\<open>JSON.parse\<close> produced
  (the request body of \<^verbatim>\<open>/submit-corrections\<close>, the reply of the language model), so
  their arguments are arbitrary JSON values, plus \<^verbatim>\<open>undefined\<close> for a property that is
  not there.

  \<^item> A number is the rational a finite double denotes (\<^verbatim>\<open>-0\<close> and \<^verbatim>\<open>0\<close> are both \<open>0\<close>;
    JSON has no \<^verbatim>\<open>NaN\<close>).
  \<^item> A string is the list of its UTF-16 code units, each a number below 65536. \<open>str\<close>
    gives the string of a literal written in this file, whose characters are all
    below 256 and are their own code units. The empty string \<^verbatim>\<open>''\<close> is \<open>JStr []\<close>.
  \<^item> An object is the list of its properties after parsing, the property looked up
    being the first with that key. The keys read below are ASCII literals, so a key is
    written as an Isabelle string.
\<close>

type_synonym code_unit = nat

type_synonym js_string = "code_unit list"

datatype jsval =
    JUndefined
  | JNull
  | JBool bool
  | JNum rat
  | JStr js_string
  | JArr "jsval list"
  | JObj "(string \<times> jsval) list"

definition str :: "string \<Rightarrow> js_string" where
  "str s = map of_char s"

datatype js_error = TypeError

text \<open>\<^verbatim>\<open>ToBoolean\<close>: \<^verbatim>\<open>undefined\<close>, \<^verbatim>\<open>null\<close>, \<^verbatim>\<open>false\<close>, \<^verbatim>\<open>0\<close> and \<^verbatim>\<open>''\<close> are falsy,
  every array and object is truthy.\<close>

fun truthy :: "jsval \<Rightarrow> bool" where
  "truthy JUndefined = False"
| "truthy JNull = False"
| "truthy (JBool b) = b"
| "truthy (JNum n) = (n \<noteq> 0)"
| "truthy (JStr s) = (s \<noteq> [])"
| "truthy (JArr xs) = True"
| "truthy (JObj kvs) = True"

text \<open>\<^verbatim>\<open>a || b\<close> is \<^verbatim>\<open>a\<close> when \<^verbatim>\<open>a\<close> is truthy and \<^verbatim>\<open>b\<close> otherwise.\<close>

definition js_or :: "jsval \<Rightarrow> jsval \<Rightarrow> jsval" where
  "js_or a b = (if truthy a then a else b)"

text \<open>
  \<^verbatim>\<open>a === b\<close>. Primitives are compared by type and value. Arrays and objects are
  compared by reference: every array and object that \<^verbatim>\<open>JSON.parse\<close> builds is a fresh
  allocation, and the comparisons below are always between two different positions of
  parsed data, so two arrays or objects are never the same reference.
\<close>

fun strict_eq :: "jsval \<Rightarrow> jsval \<Rightarrow> bool" where
  "strict_eq JUndefined JUndefined = True"
| "strict_eq JNull JNull = True"
| "strict_eq (JBool a) (JBool b) = (a = b)"
| "strict_eq (JNum a) (JNum b) = (a = b)"
| "strict_eq (JStr a) (JStr b) = (a = b)"
| "strict_eq a b = False"

text \<open>\<^verbatim>\<open>SameValueZero\<close>, the comparison of \<^verbatim>\<open>Array.prototype.includes\<close> and of \<^verbatim>\<open>Set\<close>:
  it differs from \<^verbatim>\<open>===\<close> on \<^verbatim>\<open>NaN\<close> only.\<close>

definition same_value_zero :: "jsval \<Rightarrow> jsval \<Rightarrow> bool" where
  "same_value_zero a b = strict_eq a b"

text \<open>\<^verbatim>\<open>xs.includes(x)\<close>.\<close>

definition js_includes :: "jsval list \<Rightarrow> jsval \<Rightarrow> bool" where
  "js_includes xs x = list_ex (\<lambda>y. same_value_zero y x) xs"

text \<open>\<^verbatim>\<open>new Set(xs)\<close>: the elements in insertion order, one that is already there
  (by \<^verbatim>\<open>SameValueZero\<close>) not added again; \<^verbatim>\<open>.size\<close> is their number.\<close>

definition set_add :: "jsval list \<Rightarrow> jsval \<Rightarrow> jsval list" where
  "set_add s x = (if js_includes s x then s else s @ [x])"

definition new_Set :: "jsval list \<Rightarrow> jsval list" where
  "new_Set xs = foldl set_add [] xs"

definition size_of :: "jsval list \<Rightarrow> nat" where
  "size_of s = length s"

text \<open>\<^verbatim>\<open>Array.isArray(v) ? v : []\<close>.\<close>

fun array_or_empty :: "jsval \<Rightarrow> jsval list" where
  "array_or_empty (JArr xs) = xs"
| "array_or_empty v = []"

text \<open>
  \<^verbatim>\<open>v.k\<close>. Reading a property of \<^verbatim>\<open>undefined\<close> or \<^verbatim>\<open>null\<close> throws a TypeError. An
  object gives the property's value, or \<^verbatim>\<open>undefined\<close> when it has none. The keys read
  in this file (\<^verbatim>\<open>admit_dx\<close>, \<^verbatim>\<open>pdx\<close>, \<^verbatim>\<open>sdx\<close>, \<^verbatim>\<open>cpt\<close>, \<^verbatim>\<open>modifier\<close>, \<^verbatim>\<open>document_key\<close>,
  ...) are no properties of the prototypes of arrays, strings, numbers and booleans,
  so those give \<^verbatim>\<open>undefined\<close>.
\<close>

fun get_prop :: "jsval \<Rightarrow> string \<Rightarrow> js_error + jsval" where
  "get_prop JUndefined k = Inl TypeError"
| "get_prop JNull k = Inl TypeError"
| "get_prop (JObj kvs) k = Inr (case map_of kvs k of None \<Rightarrow> JUndefined | Some v \<Rightarrow> v)"
| "get_prop v k = Inr JUndefined"

text \<open>The same read where it cannot throw: on a value already known to be neither
  \<^verbatim>\<open>undefined\<close> nor \<^verbatim>\<open>null\<close>.\<close>

definition read_prop :: "jsval \<Rightarrow> string \<Rightarrow> jsval" where
  "read_prop v k = (case get_prop v k of Inl e \<Rightarrow> JUndefined | Inr x \<Rightarrow> x)"

section \<open>Double arithmetic\<close>

text \<open>
  JavaScript numbers are IEEE 754 doubles. An operation computes the exact result and
  rounds it to the nearest double, ties to the even significand. \<open>to_double\<close> is that
  rounding on the rationals: \<open>e\<close> is the exponent of \<open>x\<close> (\<open>2 ^ e \<le> |x| < 2 ^ (e + 1)\<close>),
  the spacing of the doubles around \<open>x\<close> is \<open>2 ^ (e - 52)\<close>, and no less than \<open>2 ^ -1074\<close>
  (subnormals). Overflow to \<^verbatim>\<open>Infinity\<close> is not modelled: the numbers computed below
  are quotients and products of array lengths and of 100.
\<close>

function log2_floor :: "int \<Rightarrow> int" where
  "log2_floor n = (if n < 2 then 0 else 1 + log2_floor (n div 2))"
  by pat_completeness auto
termination
  by (relation "measure nat") auto

definition pow2 :: "int \<Rightarrow> rat" where
  "pow2 e = (if 0 \<le> e then 2 ^ nat e else 1 / 2 ^ nat (- e))"

definition exponent_of :: "rat \<Rightarrow> int" where
  "exponent_of x =
     (let (p, q) = quotient_of \<bar>x\<bar>;
          e0 = log2_floor p - log2_floor q
      in if pow2 e0 \<le> \<bar>x\<bar> then e0 else e0 - 1)"

definition round_half_even :: "rat \<Rightarrow> int" where
  "round_half_even x =
     (let f = \<lfloor>x\<rfloor>; d = x - of_int f
      in if d < 1 / 2 then f
         else if 1 / 2 < d then f + 1
         else if even f then f else f + 1)"

definition to_double :: "rat \<Rightarrow> rat" where
  "to_double x =
     (if x = 0 then 0
      else let u = pow2 (max (exponent_of x - 52) (- 1074))
           in sgn x * of_int (round_half_even (\<bar>x\<bar> / u)) * u)"

text \<open>\<^verbatim>\<open>a / b\<close> (for \<^verbatim>\<open>b\<close> not zero) and \<^verbatim>\<open>a * b\<close>.\<close>

definition js_div :: "rat \<Rightarrow> rat \<Rightarrow> rat" where
  "js_div a b = to_double (a / b)"

definition js_mul :: "rat \<Rightarrow> rat \<Rightarrow> rat" where
  "js_mul a b = to_double (a * b)"

text \<open>\<^verbatim>\<open>Math.round(x)\<close>: the integer nearest to \<^verbatim>\<open>x\<close>, the larger one on a tie.\<close>

definition Math_round :: "rat \<Rightarrow> rat" where
  "Math_round x = of_int \<lfloor>x + 1 / 2\<rfloor>"

section \<open>The accuracy report\<close>

record 'a sides =
  ai :: 'a
  user :: 'a

record field_comparison = "jsval sides" +
  match :: bool

record set_comparison = "jsval list sides" +
  matches :: "jsval list"
  additions :: "jsval list"
  removals :: "jsval list"

record accuracy_details =
  admit_dx :: field_comparison
  pdx :: field_comparison
  sdx :: set_comparison
  cpt :: set_comparison
  modifier :: field_comparison

record with_details =
  details :: accuracy_details

text \<open>The local variables of \<^verbatim>\<open>calculateAccuracy\<close>: \<^verbatim>\<open>details\<close>, \<^verbatim>\<open>totalFields\<close>
  (the denominator) and \<^verbatim>\<open>correctFields\<close> (the numerator).\<close>

record locals = with_details +
  totalFields :: nat
  correctFields :: nat

text \<open>What \<^verbatim>\<open>calculateAccuracy\<close> returns: \<^verbatim>\<open>{ percentage, details }\<close>.\<close>

record report = with_details +
  percentage :: rat

section \<open>calculateAccuracy\<close>

text \<open>Lines 273 to 282: the initial \<^verbatim>\<open>details\<close> and the two counters.\<close>

definition init_locals :: "jsval \<Rightarrow> jsval \<Rightarrow> locals" where
  "init_locals aiCodes userCodes =
     \<lparr> details =
         \<lparr> admit_dx = \<lparr> ai = js_or (read_prop aiCodes ''admit_dx'') (JStr []),
                        user = js_or (read_prop userCodes ''admit_dx'') (JStr []),
                        match = False \<rparr>,
           pdx = \<lparr> ai = js_or (read_prop aiCodes ''pdx'') (JStr []),
                   user = js_or (read_prop userCodes ''pdx'') (JStr []),
                   match = False \<rparr>,
           sdx = \<lparr> ai = [], user = [], matches = [], additions = [], removals = [] \<rparr>,
           cpt = \<lparr> ai = [], user = [], matches = [], additions = [], removals = [] \<rparr>,
           modifier = \<lparr> ai = js_or (read_prop aiCodes ''modifier'') (JStr []),
                        user = js_or (read_prop userCodes ''modifier'') (JStr []),
                        match = False \<rparr> \<rparr>,
       totalFields = 0,
       correctFields = 0 \<rparr>"

text \<open>Lines 284 to 290.\<close>

definition admit_dx_block :: "jsval \<Rightarrow> jsval \<Rightarrow> locals \<Rightarrow> locals" where
  "admit_dx_block aiCodes userCodes st =
     (if truthy (read_prop aiCodes ''admit_dx'') \<or> truthy (read_prop userCodes ''admit_dx'') then
        let st1 = st\<lparr>totalFields := totalFields st + 1\<rparr> in
        if strict_eq (js_or (read_prop aiCodes ''admit_dx'') (JStr []))
                     (js_or (read_prop userCodes ''admit_dx'') (JStr []))
        then st1\<lparr>correctFields := correctFields st1 + 1,
                 details := (details st1)\<lparr>admit_dx := (admit_dx (details st1))\<lparr>match := True\<rparr>\<rparr>\<rparr>
        else st1
      else st)"

text \<open>Lines 292 to 298.\<close>

definition pdx_block :: "jsval \<Rightarrow> jsval \<Rightarrow> locals \<Rightarrow> locals" where
  "pdx_block aiCodes userCodes st =
     (if truthy (read_prop aiCodes ''pdx'') \<or> truthy (read_prop userCodes ''pdx'') then
        let st1 = st\<lparr>totalFields := totalFields st + 1\<rparr> in
        if strict_eq (js_or (read_prop aiCodes ''pdx'') (JStr []))
                     (js_or (read_prop userCodes ''pdx'') (JStr []))
        then st1\<lparr>correctFields := correctFields st1 + 1,
                 details := (details st1)\<lparr>pdx := (pdx (details st1))\<lparr>match := True\<rparr>\<rparr>\<rparr>
        else st1
      else st)"

text \<open>Lines 300 to 306.\<close>

definition modifier_block :: "jsval \<Rightarrow> jsval \<Rightarrow> locals \<Rightarrow> locals" where
  "modifier_block aiCodes userCodes st =
     (if truthy (read_prop aiCodes ''modifier'') \<or> truthy (read_prop userCodes ''modifier'') then
        let st1 = st\<lparr>totalFields := totalFields st + 1\<rparr> in
        if strict_eq (js_or (read_prop aiCodes ''modifier'') (JStr []))
                     (js_or (read_prop userCodes ''modifier'') (JStr []))
        then st1\<lparr>correctFields := correctFields st1 + 1,
                 details := (details st1)\<lparr>modifier := (modifier (details st1))\<lparr>match := True\<rparr>\<rparr>\<rparr>
        else st1
      else st)"

text \<open>Lines 308 to 320.\<close>

definition sdx_block :: "jsval \<Rightarrow> jsval \<Rightarrow> locals \<Rightarrow> locals" where
  "sdx_block aiCodes userCodes st =
     (let aiSdx = array_or_empty (read_prop aiCodes ''sdx'');
          userSdx = array_or_empty (read_prop userCodes ''sdx'');
          st1 = st\<lparr>details := (details st)\<lparr>sdx := (sdx (details st))
                  \<lparr>ai := aiSdx,
                   user := userSdx,
                   matches := filter (\<lambda>code. js_includes userSdx code) aiSdx,
                   additions := filter (\<lambda>code. \<not> js_includes aiSdx code) userSdx,
                   removals := filter (\<lambda>code. \<not> js_includes userSdx code) aiSdx\<rparr>\<rparr>\<rparr>
      in if 0 < length aiSdx \<or> 0 < length userSdx then
           let allSdxCodes = new_Set (aiSdx @ userSdx) in
           st1\<lparr>totalFields := totalFields st1 + size_of allSdxCodes,
               correctFields := correctFields st1 + length (matches (sdx (details st1)))\<rparr>
         else st1)"

text \<open>Lines 322 to 334.\<close>

definition cpt_block :: "jsval \<Rightarrow> jsval \<Rightarrow> locals \<Rightarrow> locals" where
  "cpt_block aiCodes userCodes st =
     (let aiCpt = array_or_empty (read_prop aiCodes ''cpt'');
          userCpt = array_or_empty (read_prop userCodes ''cpt'');
          st1 = st\<lparr>details := (details st)\<lparr>cpt := (cpt (details st))
                  \<lparr>ai := aiCpt,
                   user := userCpt,
                   matches := filter (\<lambda>code. js_includes userCpt code) aiCpt,
                   additions := filter (\<lambda>code. \<not> js_includes aiCpt code) userCpt,
                   removals := filter (\<lambda>code. \<not> js_includes userCpt code) aiCpt\<rparr>\<rparr>\<rparr>
      in if 0 < length aiCpt \<or> 0 < length userCpt then
           let allCptCodes = new_Set (aiCpt @ userCpt) in
           st1\<lparr>totalFields := totalFields st1 + size_of allCptCodes,
               correctFields := correctFields st1 + length (matches (cpt (details st1)))\<rparr>
         else st1)"

text \<open>The locals when line 336 is reached.\<close>

definition final_locals :: "jsval \<Rightarrow> jsval \<Rightarrow> locals" where
  "final_locals aiCodes userCodes =
     cpt_block aiCodes userCodes
       (sdx_block aiCodes userCodes
         (modifier_block aiCodes userCodes
           (pdx_block aiCodes userCodes
             (admit_dx_block aiCodes userCodes
               (init_locals aiCodes userCodes)))))"

text \<open>Lines 336 and 337.\<close>

definition make_report :: "locals \<Rightarrow> report" where
  "make_report st =
     (let accuracy =
            (if 0 < totalFields st
             then js_mul (js_div (of_nat (correctFields st)) (of_nat (totalFields st))) 100
             else 100)
      in \<lparr> details = details st,
           percentage = js_div (Math_round (js_mul accuracy 100)) 100 \<rparr>)"

text \<open>
  The whole function. Its first statement reads \<^verbatim>\<open>aiCodes.admit_dx\<close>, then
  \<^verbatim>\<open>userCodes.admit_dx\<close>: either read throws when the argument is \<^verbatim>\<open>undefined\<close> or
  \<^verbatim>\<open>null\<close>, and nothing in the function catches it. Every later read is on one of the
  same two values, so it cannot throw.
\<close>

definition calculateAccuracy :: "jsval \<Rightarrow> jsval \<Rightarrow> js_error + report" where
  "calculateAccuracy aiCodes userCodes =
     (case get_prop aiCodes ''admit_dx'' of
        Inl e \<Rightarrow> Inl e
      | Inr a \<Rightarrow>
          (case get_prop userCodes ''admit_dx'' of
             Inl e \<Rightarrow> Inl e
           | Inr u \<Rightarrow> Inr (make_report (final_locals aiCodes userCodes))))"

section \<open>Coding results\<close>

text \<open>
  The data the engine is meant for: three scalar codes, the empty string for an absent
  one, and two sequences of codes. \<open>to_js\<close> is the object a client sends for it, with
  the property names \<^verbatim>\<open>calculateAccuracy\<close> reads.
\<close>

record coding_result =
  admitDiagnosis :: js_string
  principalDiagnosis :: js_string
  secondaryDiagnoses :: "js_string list"
  procedureCodes :: "js_string list"
  modifierCode :: js_string

definition to_js :: "coding_result \<Rightarrow> jsval" where
  "to_js r =
     JObj [(''admit_dx'', JStr (admitDiagnosis r)),
           (''pdx'', JStr (principalDiagnosis r)),
           (''sdx'', JArr (map JStr (secondaryDiagnoses r))),
           (''cpt'', JArr (map JStr (procedureCodes r))),
           (''modifier'', JStr (modifierCode r))]"

text \<open>A component of the report, when the call returned one.\<close>

definition on_report :: "(report \<Rightarrow> 'a) \<Rightarrow> js_error + report \<Rightarrow> 'a option" where
  "on_report f res = (case res of Inl e \<Rightarrow> None | Inr r \<Rightarrow> Some (f r))"

definition emptyResult :: coding_result where
  "emptyResult =
     \<lparr> admitDiagnosis = [], principalDiagnosis = [], secondaryDiagnoses = [],
       procedureCodes = [], modifierCode = [] \<rparr>"

text \<open>A pair that disagrees on the admit diagnosis, agrees on the principal diagnosis,
  has no modifier on either side, and shares one of three secondary diagnoses.\<close>

definition sampleAi :: coding_result where
  "sampleAi =
     \<lparr> admitDiagnosis = str ''K92.1'', principalDiagnosis = str ''K21.9'',
       secondaryDiagnoses = [str ''I10'', str ''E78.5''], procedureCodes = [str ''45378''],
       modifierCode = [] \<rparr>"

definition sampleUser :: coding_result where
  "sampleUser =
     \<lparr> admitDiagnosis = str ''K92.2'', principalDiagnosis = str ''K21.9'',
       secondaryDiagnoses = [str ''E78.5'', str ''Z79.01''],
       procedureCodes = [str ''45378'', str ''43235''],
       modifierCode = [] \<rparr>"

text \<open>Results whose sequences repeat a code.\<close>

definition repeatedAi :: coding_result where
  "repeatedAi = emptyResult\<lparr>secondaryDiagnoses := [str ''I10'', str ''I10'']\<rparr>"

definition repeatedUser :: coding_result where
  "repeatedUser = emptyResult\<lparr>secondaryDiagnoses := [str ''I10'']\<rparr>"

definition tripledAi :: coding_result where
  "tripledAi = emptyResult\<lparr>procedureCodes := [str ''45378'', str ''45378'', str ''45378'']\<rparr>"

definition tripledUser :: coding_result where
  "tripledUser = emptyResult\<lparr>procedureCodes := [str ''45378'']\<rparr>"

section \<open>Normalizing the list fields (extractCodesFromText)\<close>

text \<open>\<^verbatim>\<open>s.split(sep)\<close> for a separator of one character: the pieces between the
  separators, the empty ones included; the empty string gives one empty piece.\<close>

fun js_split :: "code_unit \<Rightarrow> js_string \<Rightarrow> js_string list" where
  "js_split sep [] = [[]]"
| "js_split sep (c # cs) =
     (if c = sep then [] # js_split sep cs
      else (case js_split sep cs of [] \<Rightarrow> [[c]] | p # ps \<Rightarrow> (c # p) # ps))"

text \<open>The code unit of the comma.\<close>

definition comma :: code_unit where
  "comma = of_char CHR '',''"

text \<open>
  The white space and line terminators of ECMAScript, which \<^verbatim>\<open>trim\<close> removes: tab
  (U+0009), line feed (U+000A), vertical tab (U+000B), form feed (U+000C), carriage
  return (U+000D), space (U+0020), no-break space (U+00A0), the other space separators
  (U+1680, U+2000 to U+200A, U+202F, U+205F, U+3000), the line and paragraph separators
  (U+2028, U+2029) and the byte order mark (U+FEFF). Each is one code unit.
\<close>

definition is_white_space :: "code_unit \<Rightarrow> bool" where
  "is_white_space c =
     (c \<in> {9, 10, 11, 12, 13, 32, 160, 5760, 8232, 8233, 8239, 8287, 12288, 65279}
      \<or> (8192 \<le> c \<and> c \<le> 8202))"

text \<open>\<^verbatim>\<open>s.trim()\<close>.\<close>

definition js_trim :: "js_string \<Rightarrow> js_string" where
  "js_trim s = rev (dropWhile is_white_space (rev (dropWhile is_white_space s)))"

text \<open>Lines 913 and 914: \<^verbatim>\<open>s.split(',').map(s => s.trim()).filter(Boolean)\<close>.\<close>

definition split_codes :: "js_string \<Rightarrow> jsval list" where
  "split_codes s =
     filter truthy (map (\<lambda>s. JStr (js_trim s)) (js_split comma s))"

text \<open>Lines 911 to 914 for one field: \<^verbatim>\<open>let sdx = result.sdx || []\<close>, then the split
  when \<^verbatim>\<open>typeof sdx === 'string'\<close>.\<close>

definition list_field :: "jsval \<Rightarrow> jsval" where
  "list_field v =
     (let x = js_or v (JArr [])
      in case x of JStr s \<Rightarrow> JArr (split_codes s) | _ \<Rightarrow> x)"

text \<open>
  Lines 908 to 920 of \<^verbatim>\<open>extractCodesFromText\<close>, from the parsed reply \<^verbatim>\<open>result\<close> on; the
  chart number, the date of service and the token count come from elsewhere. A reply
  that is \<^verbatim>\<open>null\<close> makes \<^verbatim>\<open>result.sdx\<close> throw, and the \<^verbatim>\<open>catch\<close> returns \<^verbatim>\<open>null\<close>.
\<close>

definition extracted_codes :: "jsval \<Rightarrow> jsval \<Rightarrow> jsval \<Rightarrow> jsval \<Rightarrow> jsval" where
  "extracted_codes chartNumber dos tokens result =
     (case get_prop result ''sdx'' of
        Inl e \<Rightarrow> JNull
      | Inr v \<Rightarrow>
          JObj [(''chart_number'', chartNumber),
                (''dos'', dos),
                (''admit_dx'', js_or (read_prop result ''admit_dx'') (JStr [])),
                (''pdx'', js_or (read_prop result ''pdx'') (JStr [])),
                (''sdx'', list_field (read_prop result ''sdx'')),
                (''cpt'', list_field (read_prop result ''cpt'')),
                (''modifier'', js_or (read_prop result ''modifier'') (JStr [])),
                (''tokens_used'', tokens)])"

text \<open>Joining pieces with a separator, to say what a split is.\<close>

fun joined :: "code_unit \<Rightarrow> js_string list \<Rightarrow> js_string" where
  "joined sep [] = []"
| "joined sep [p] = p"
| "joined sep (p # q # ps) = p @ sep # joined sep (q # ps)"

section \<open>The submit-corrections operation\<close>

text \<open>
  The handler of \<^verbatim>\<open>POST /submit-corrections\<close> (lines 670 to 707) as a function of the
  request body. Beside the response it sends, its result records the calls of
  \<^verbatim>\<open>calculateAccuracy\<close> it made, with their arguments, and the database updates it issued.
  A failing update is caught and logged (lines 680 to 694) and changes nothing else.
\<close>

datatype error_text = Literal string | Message_of js_error

datatype response_body =
    Failure error_text
  | Success jsval jsval report

record response =
  status :: nat
  body :: response_body

text \<open>The parameters of the \<^verbatim>\<open>UPDATE\<close>; a value passed through \<^verbatim>\<open>JSON.stringify\<close>
  stands for its text.\<close>

record db_update =
  user_admit_dx :: jsval
  user_pdx :: jsval
  user_sdx :: jsval
  user_cpt :: jsval
  user_modifier :: jsval
  accuracy_percentage :: rat
  accuracy_details :: accuracy_details
  edit_reasons :: jsval
  remarks :: jsval
  document_key :: jsval

record handled =
  response :: response
  engine_calls :: "(jsval \<times> jsval) list"
  db_updates :: "db_update list"

text \<open>
  Line 678, the call of the engine: what \<^verbatim>\<open>calculateAccuracy\<close> returns or throws on the
  two arguments, and the call added to the calls made so far.
\<close>

definition call_calculateAccuracy ::
  "jsval \<Rightarrow> jsval \<Rightarrow> (jsval \<times> jsval) list \<Rightarrow> (js_error + report) \<times> (jsval \<times> jsval) list" where
  "call_calculateAccuracy aiCodes userCodes calls =
     (calculateAccuracy aiCodes userCodes, calls @ [(aiCodes, userCodes)])"

text \<open>
  Destructuring \<^verbatim>\<open>req.body\<close> throws when it is \<^verbatim>\<open>undefined\<close> or \<^verbatim>\<open>null\<close>; so does
  \<^verbatim>\<open>calculateAccuracy\<close> on such an argument. Both are caught by the outer \<^verbatim>\<open>catch\<close>, which
  answers 500 with the error's message.
\<close>

definition submit_corrections :: "jsval \<Rightarrow> handled" where
  "submit_corrections req_body =
     (case get_prop req_body ''document_key'' of
        Inl e \<Rightarrow>
          \<lparr> response = \<lparr> status = 500, body = Failure (Message_of e) \<rparr>,
            engine_calls = [], db_updates = [] \<rparr>
      | Inr v \<Rightarrow>
          (let document_key = read_prop req_body ''document_key'';
               chart_number = read_prop req_body ''chart_number'';
               original = read_prop req_body ''original'';
               corrected = read_prop req_body ''corrected'';
               edit_reasons = read_prop req_body ''edit_reasons'';
               remarks = read_prop req_body ''remarks''
           in if \<not> truthy document_key \<or> \<not> truthy corrected then
                \<lparr> response =
                    \<lparr> status = 400,
                      body = Failure (Literal ''document_key and corrected data are required'') \<rparr>,
                  engine_calls = [], db_updates = [] \<rparr>
              else
                (case call_calculateAccuracy original corrected [] of
                   (Inl e, calls) \<Rightarrow>
                     \<lparr> response = \<lparr> status = 500, body = Failure (Message_of e) \<rparr>,
                       engine_calls = calls, db_updates = [] \<rparr>
                 | (Inr accuracyResult, calls) \<Rightarrow>
                     \<lparr> response =
                         \<lparr> status = 200,
                           body = Success document_key chart_number accuracyResult \<rparr>,
                       engine_calls = calls,
                       db_updates =
                         [\<lparr> user_admit_dx = read_prop corrected ''admit_dx'',
                            user_pdx = read_prop corrected ''pdx'',
                            user_sdx = read_prop corrected ''sdx'',
                            user_cpt = read_prop corrected ''cpt'',
                            user_modifier = read_prop corrected ''modifier'',
                            accuracy_percentage = percentage accuracyResult,
                            accuracy_details = details accuracyResult,
                            edit_reasons = edit_reasons,
                            remarks = remarks,
                            document_key = document_key \<rparr>] \<rparr>)))"

text \<open>Request bodies: one without \<^verbatim>\<open>document_key\<close>, one without \<^verbatim>\<open>corrected\<close>, a complete
  one, one that has \<^verbatim>\<open>document_key\<close> and \<^verbatim>\<open>corrected\<close> but no \<^verbatim>\<open>original\<close>, and one
  whose \<^verbatim>\<open>document_key\<close> is there and is the empty string.\<close>

definition body_empty_key :: jsval where
  "body_empty_key =
     JObj [(''document_key'', JStr []), (''original'', to_js sampleAi),
           (''corrected'', to_js sampleUser)]"

definition body_without_key :: jsval where
  "body_without_key =
     JObj [(''original'', to_js sampleAi), (''corrected'', to_js sampleUser)]"

definition body_without_corrected :: jsval where
  "body_without_corrected =
     JObj [(''document_key'', JStr (str ''doc-1'')), (''original'', to_js sampleAi)]"

definition body_complete :: jsval where
  "body_complete =
     JObj [(''document_key'', JStr (str ''doc-1'')), (''original'', to_js sampleAi),
           (''corrected'', to_js sampleUser)]"

definition body_without_original :: jsval where
  "body_without_original =
     JObj [(''document_key'', JStr (str ''doc-1'')), (''corrected'', to_js sampleUser)]"

section \<open>Coding results as arguments of calculateAccuracy\<close>

text \<open>What the JavaScript operations do on strings and on arrays of strings.\<close>

lemma str_eq_iff [simp]: "(str a = str b) = (a = b)"
  by (simp add: str_def inj_map_eq_map inj_of_char)

lemma str_eq_Nil [simp]: "(str a = []) = (a = [])"
  by (simp add: str_def)

lemma read_prop_to_js:
  "read_prop (to_js r) ''admit_dx'' = JStr (admitDiagnosis r)"
  "read_prop (to_js r) ''pdx'' = JStr (principalDiagnosis r)"
  "read_prop (to_js r) ''sdx'' = JArr (map JStr (secondaryDiagnoses r))"
  "read_prop (to_js r) ''cpt'' = JArr (map JStr (procedureCodes r))"
  "read_prop (to_js r) ''modifier'' = JStr (modifierCode r)"
  by (simp_all add: read_prop_def to_js_def)

lemma js_includes_JStr: "js_includes (map JStr ys) (JStr x) = (x \<in> set ys)"
  by (induction ys) (auto simp: js_includes_def same_value_zero_def)

lemma filter_includes_JStr:
  "filter (\<lambda>code. js_includes (map JStr ys) code) (map JStr xs) = map JStr (filter (\<lambda>x. x \<in> set ys) xs)"
  by (induction xs) (simp_all add: js_includes_JStr)

lemma filter_not_includes_JStr:
  "filter (\<lambda>code. \<not> js_includes (map JStr ys) code) (map JStr xs) = map JStr (filter (\<lambda>x. x \<notin> set ys) xs)"
  by (induction xs) (simp_all add: js_includes_JStr)

lemma foldl_set_add_JStr:
  "distinct acc \<Longrightarrow> \<exists>zs. foldl set_add (map JStr acc) (map JStr xs) = map JStr zs \<and> distinct zs \<and> set zs = set acc \<union> set xs"
proof (induction xs arbitrary: acc)
  case Nil
  then show ?case by auto
next
  case (Cons x xs)
  show ?case
  proof (cases "x \<in> set acc")
    case True
    then have "set_add (map JStr acc) (JStr x) = map JStr acc"
      by (simp add: set_add_def js_includes_JStr)
    with Cons.IH[OF Cons.prems] True show ?thesis by auto
  next
    case False
    then have "set_add (map JStr acc) (JStr x) = map JStr (acc @ [x])"
      by (simp add: set_add_def js_includes_JStr)
    moreover have "distinct (acc @ [x])" using False Cons.prems by simp
    ultimately show ?thesis using Cons.IH[of "acc @ [x]"] by auto
  qed
qed

lemma size_new_Set_JStr: "size_of (new_Set (map JStr xs)) = card (set xs)"
proof -
  obtain zs where "foldl set_add (map JStr []) (map JStr xs) = map JStr zs" "distinct zs" "set zs = set [] \<union> set xs"
    using foldl_set_add_JStr[of "[]" xs] by auto
  then show ?thesis using distinct_card[of zs] by (simp add: size_of_def new_Set_def)
qed

lemma calculateAccuracy_to_js:
  "calculateAccuracy (to_js a) (to_js u) = Inr (make_report (final_locals (to_js a) (to_js u)))"
  by (simp add: calculateAccuracy_def to_js_def)

lemma admit_dx_block_typed:
  "totalFields (admit_dx_block (to_js a) (to_js u) st) =
     totalFields st + (if admitDiagnosis a = [] \<and> admitDiagnosis u = [] then 0 else 1)"
  "correctFields (admit_dx_block (to_js a) (to_js u) st) =
     correctFields st + (if admitDiagnosis a = admitDiagnosis u \<and> admitDiagnosis a \<noteq> [] then 1 else 0)"
  "details (admit_dx_block (to_js a) (to_js u) st) =
     (if admitDiagnosis a = admitDiagnosis u \<and> admitDiagnosis a \<noteq> []
      then (details st)\<lparr>admit_dx := (admit_dx (details st))\<lparr>match := True\<rparr>\<rparr>
      else details st)"
  by (auto simp: admit_dx_block_def read_prop_to_js js_or_def Let_def)

lemma pdx_block_typed:
  "totalFields (pdx_block (to_js a) (to_js u) st) =
     totalFields st + (if principalDiagnosis a = [] \<and> principalDiagnosis u = [] then 0 else 1)"
  "correctFields (pdx_block (to_js a) (to_js u) st) =
     correctFields st + (if principalDiagnosis a = principalDiagnosis u \<and> principalDiagnosis a \<noteq> [] then 1 else 0)"
  "details (pdx_block (to_js a) (to_js u) st) =
     (if principalDiagnosis a = principalDiagnosis u \<and> principalDiagnosis a \<noteq> []
      then (details st)\<lparr>pdx := (pdx (details st))\<lparr>match := True\<rparr>\<rparr>
      else details st)"
  by (auto simp: pdx_block_def read_prop_to_js js_or_def Let_def)

lemma modifier_block_typed:
  "totalFields (modifier_block (to_js a) (to_js u) st) =
     totalFields st + (if modifierCode a = [] \<and> modifierCode u = [] then 0 else 1)"
  "correctFields (modifier_block (to_js a) (to_js u) st) =
     correctFields st + (if modifierCode a = modifierCode u \<and> modifierCode a \<noteq> [] then 1 else 0)"
  "details (modifier_block (to_js a) (to_js u) st) =
     (if modifierCode a = modifierCode u \<and> modifierCode a \<noteq> []
      then (details st)\<lparr>modifier := (modifier (details st))\<lparr>match := True\<rparr>\<rparr>
      else details st)"
  by (auto simp: modifier_block_def read_prop_to_js js_or_def Let_def)

lemma sdx_block_typed:
  "totalFields (sdx_block (to_js a) (to_js u) st) =
     totalFields st + card (set (secondaryDiagnoses a) \<union> set (secondaryDiagnoses u))"
  "correctFields (sdx_block (to_js a) (to_js u) st) =
     correctFields st + length (filter (\<lambda>c. c \<in> set (secondaryDiagnoses u)) (secondaryDiagnoses a))"
  "details (sdx_block (to_js a) (to_js u) st) =
     (details st)\<lparr>sdx := (sdx (details st))
        \<lparr>ai := map JStr (secondaryDiagnoses a),
         user := map JStr (secondaryDiagnoses u),
         matches := map JStr (filter (\<lambda>c. c \<in> set (secondaryDiagnoses u)) (secondaryDiagnoses a)),
         additions := map JStr (filter (\<lambda>c. c \<notin> set (secondaryDiagnoses a)) (secondaryDiagnoses u)),
         removals := map JStr (filter (\<lambda>c. c \<notin> set (secondaryDiagnoses u)) (secondaryDiagnoses a))\<rparr>\<rparr>"
  using size_new_Set_JStr[of "secondaryDiagnoses a @ secondaryDiagnoses u"]
  by (auto simp: sdx_block_def read_prop_to_js Let_def filter_includes_JStr filter_not_includes_JStr)

lemma cpt_block_typed:
  "totalFields (cpt_block (to_js a) (to_js u) st) =
     totalFields st + card (set (procedureCodes a) \<union> set (procedureCodes u))"
  "correctFields (cpt_block (to_js a) (to_js u) st) =
     correctFields st + length (filter (\<lambda>c. c \<in> set (procedureCodes u)) (procedureCodes a))"
  "details (cpt_block (to_js a) (to_js u) st) =
     (details st)\<lparr>cpt := (cpt (details st))
        \<lparr>ai := map JStr (procedureCodes a),
         user := map JStr (procedureCodes u),
         matches := map JStr (filter (\<lambda>c. c \<in> set (procedureCodes u)) (procedureCodes a)),
         additions := map JStr (filter (\<lambda>c. c \<notin> set (procedureCodes a)) (procedureCodes u)),
         removals := map JStr (filter (\<lambda>c. c \<notin> set (procedureCodes u)) (procedureCodes a))\<rparr>\<rparr>"
  using size_new_Set_JStr[of "procedureCodes a @ procedureCodes u"]
  by (auto simp: cpt_block_def read_prop_to_js Let_def filter_includes_JStr filter_not_includes_JStr)

lemmas blocks_typed = admit_dx_block_typed pdx_block_typed modifier_block_typed sdx_block_typed cpt_block_typed

lemma final_totalFields:
  "totalFields (final_locals (to_js a) (to_js u)) =
     (if admitDiagnosis a = [] \<and> admitDiagnosis u = [] then 0 else 1)
   + (if principalDiagnosis a = [] \<and> principalDiagnosis u = [] then 0 else 1)
   + (if modifierCode a = [] \<and> modifierCode u = [] then 0 else 1)
   + card (set (secondaryDiagnoses a) \<union> set (secondaryDiagnoses u))
   + card (set (procedureCodes a) \<union> set (procedureCodes u))"
  by (simp add: final_locals_def blocks_typed init_locals_def)

lemma final_correctFields:
  "correctFields (final_locals (to_js a) (to_js u)) =
     (if admitDiagnosis a = admitDiagnosis u \<and> admitDiagnosis a \<noteq> [] then 1 else 0)
   + (if principalDiagnosis a = principalDiagnosis u \<and> principalDiagnosis a \<noteq> [] then 1 else 0)
   + (if modifierCode a = modifierCode u \<and> modifierCode a \<noteq> [] then 1 else 0)
   + length (filter (\<lambda>c. c \<in> set (secondaryDiagnoses u)) (secondaryDiagnoses a))
   + length (filter (\<lambda>c. c \<in> set (procedureCodes u)) (procedureCodes a))"
  by (simp add: final_locals_def blocks_typed init_locals_def)

lemma final_details:
  "details (final_locals (to_js a) (to_js u)) =
     \<lparr> admit_dx = \<lparr> ai = JStr (admitDiagnosis a), user = JStr (admitDiagnosis u),
                    match = (admitDiagnosis a = admitDiagnosis u \<and> admitDiagnosis a \<noteq> []) \<rparr>,
       pdx = \<lparr> ai = JStr (principalDiagnosis a), user = JStr (principalDiagnosis u),
               match = (principalDiagnosis a = principalDiagnosis u \<and> principalDiagnosis a \<noteq> []) \<rparr>,
       sdx = \<lparr> ai = map JStr (secondaryDiagnoses a),
               user = map JStr (secondaryDiagnoses u),
               matches = map JStr (filter (\<lambda>c. c \<in> set (secondaryDiagnoses u)) (secondaryDiagnoses a)),
               additions = map JStr (filter (\<lambda>c. c \<notin> set (secondaryDiagnoses a)) (secondaryDiagnoses u)),
               removals = map JStr (filter (\<lambda>c. c \<notin> set (secondaryDiagnoses u)) (secondaryDiagnoses a)) \<rparr>,
       cpt = \<lparr> ai = map JStr (procedureCodes a),
               user = map JStr (procedureCodes u),
               matches = map JStr (filter (\<lambda>c. c \<in> set (procedureCodes u)) (procedureCodes a)),
               additions = map JStr (filter (\<lambda>c. c \<notin> set (procedureCodes a)) (procedureCodes u)),
               removals = map JStr (filter (\<lambda>c. c \<notin> set (procedureCodes u)) (procedureCodes a)) \<rparr>,
       modifier = \<lparr> ai = JStr (modifierCode a), user = JStr (modifierCode u),
                    match = (modifierCode a = modifierCode u \<and> modifierCode a \<noteq> []) \<rparr> \<rparr>"
  by (simp add: final_locals_def blocks_typed init_locals_def read_prop_to_js js_or_def)

lemma report_details_to_js:
  "on_report (f \<circ> details) (calculateAccuracy (to_js a) (to_js u)) =
     Some (f (details (final_locals (to_js a) (to_js u))))"
  by (simp add: calculateAccuracy_to_js on_report_def make_report_def Let_def)

text \<open>The double arithmetic of lines 336 and 337 on the values met below.\<close>

lemma to_double_1: "to_double 1 = 1"
  by code_simp

lemma to_double_100: "to_double 100 = 100"
  by code_simp

lemma round2_100: "js_div (Math_round (js_mul 100 100)) 100 = 100"
  by code_simp

lemma full_agreement_100: "0 < n \<Longrightarrow> js_mul (js_div (of_nat n) (of_nat n)) 100 = 100"
  by (simp add: js_div_def js_mul_def to_double_1 to_double_100)

lemma report_percentage_to_js:
  "on_report percentage (calculateAccuracy (to_js a) (to_js u)) =
     Some (percentage (make_report (final_locals (to_js a) (to_js u))))"
  by (simp add: calculateAccuracy_to_js on_report_def)

text \<open>On an AI sequence without repeated codes the number of matches is the size of the
  intersection.\<close>

lemma length_filter_distinct:
  "distinct xs \<Longrightarrow> length (filter (\<lambda>c. c \<in> set ys) xs) = card (set xs \<inter> set ys)"
proof -
  assume d: "distinct xs"
  have "set (filter (\<lambda>c. c \<in> set ys) xs) = set xs \<inter> set ys" by auto
  moreover have "distinct (filter (\<lambda>c. c \<in> set ys) xs)" using d by simp
  ultimately show ?thesis using distinct_card[of "filter (\<lambda>c. c \<in> set ys) xs"] by simp
qed

lemma sample_counts:
  "totalFields (final_locals (to_js sampleAi) (to_js sampleUser)) = 7"
  "correctFields (final_locals (to_js sampleAi) (to_js sampleUser)) = 3"
  by code_simp+

lemma sample_rounding:
  "js_div (Math_round (js_mul (js_mul (js_div 3 7) 100) 100)) 100 = to_double (4286 / 100)"
  by code_simp

lemma round2_200: "js_div (Math_round (js_mul (js_mul (js_div 2 1) 100) 100)) 100 = 200"
  by code_simp

lemma round2_300: "js_div (Math_round (js_mul (js_mul (js_div 3 1) 100) 100)) 100 = 300"
  by code_simp

text \<open>One correct field of three is reported as 33.33. The arithmetic is that of doubles,
  not the exact one: 23 correct fields of 160 are 14.375 per cent, and the report says
  14.37, because the double product is just below 1437.5.\<close>

lemma third_rounds_to_two_decimals:
  "js_div (Math_round (js_mul (js_mul (js_div 1 3) 100) 100)) 100 = to_double (3333 / 100)"
  by code_simp

lemma tie_rounds_down_in_doubles:
  "js_div (Math_round (js_mul (js_mul (js_div 23 160) 100) 100)) 100 = to_double (1437 / 100)"
  by code_simp

text \<open>A result whose sequences repeat no code, compared with itself, scores 100.\<close>

lemma exact_match_without_repetitions:
  assumes "distinct (secondaryDiagnoses r)" and "distinct (procedureCodes r)"
    and "admitDiagnosis r \<noteq> [] \<or> principalDiagnosis r \<noteq> [] \<or> modifierCode r \<noteq> []
         \<or> secondaryDiagnoses r \<noteq> [] \<or> procedureCodes r \<noteq> []"
  shows "on_report percentage (calculateAccuracy (to_js r) (to_js r)) = Some 100"
proof -
  let ?st = "final_locals (to_js r) (to_js r)"
  have c: "correctFields ?st = totalFields ?st"
    using assms(1,2) distinct_card[of "secondaryDiagnoses r"] distinct_card[of "procedureCodes r"]
    by (simp add: final_totalFields final_correctFields)
  have t: "0 < totalFields ?st"
    using assms(3) by (auto simp: final_totalFields card_gt_0_iff)
  show ?thesis
    using t by (simp add: report_percentage_to_js make_report_def Let_def c full_agreement_100 round2_100)
qed

section \<open>Splitting and trimming\<close>

lemma js_split_not_Nil: "js_split sep s \<noteq> []"
  by (induction s) (auto split: list.splits)

lemma joined_Cons_Cons: "joined sep ((c # p) # ps) = c # joined sep (p # ps)"
  by (cases ps) simp_all

lemma joined_js_split: "joined sep (js_split sep s) = s"
proof (induction s)
  case Nil
  then show ?case by simp
next
  case (Cons c cs)
  obtain p ps where sp: "js_split sep cs = p # ps"
    using js_split_not_Nil[of sep cs] by (cases "js_split sep cs") auto
  show ?case
  proof (cases "c = sep")
    case True
    then show ?thesis using Cons.IH sp by simp
  next
    case False
    then show ?thesis using Cons.IH sp by (simp add: joined_Cons_Cons)
  qed
qed

lemma js_split_no_sep: "p \<in> set (js_split sep s) \<Longrightarrow> sep \<notin> set p"
proof (induction s arbitrary: p)
  case Nil
  then show ?case by simp
next
  case (Cons c cs)
  then show ?case
    by (cases "js_split sep cs") (auto split: if_splits)
qed

lemma js_trim_decomposition:
  "\<exists>l r. s = l @ js_trim s @ r \<and> list_all is_white_space l \<and> list_all is_white_space r"
proof -
  let ?t = "dropWhile is_white_space s"
  let ?l = "takeWhile is_white_space s"
  let ?r = "rev (takeWhile is_white_space (rev ?t))"
  have "rev (takeWhile is_white_space (rev ?t) @ dropWhile is_white_space (rev ?t)) = rev (rev ?t)"
    by (simp only: takeWhile_dropWhile_id)
  then have "rev (dropWhile is_white_space (rev ?t)) @ ?r = ?t"
    by (simp only: rev_append rev_rev_ident)
  then have t: "?t = js_trim s @ ?r"
    by (simp add: js_trim_def)
  have "s = ?l @ ?t" by simp
  with t have "s = ?l @ js_trim s @ ?r" by simp
  moreover have "list_all is_white_space ?l"
    by (auto simp: list_all_iff dest: set_takeWhileD)
  moreover have "list_all is_white_space ?r"
    by (auto simp: list_all_iff dest: set_takeWhileD)
  ultimately show ?thesis by blast
qed

lemma js_trim_ends:
  assumes "js_trim s \<noteq> []"
  shows "\<not> is_white_space (hd (js_trim s))" and "\<not> is_white_space (last (js_trim s))"
proof -
  let ?t = "dropWhile is_white_space s"
  let ?d = "dropWhile is_white_space (rev ?t)"
  have d: "?d \<noteq> []" using assms by (simp add: js_trim_def)
  then have "\<not> is_white_space (hd ?d)" by (rule hd_dropWhile)
  moreover have "last (js_trim s) = hd ?d"
    using d by (simp add: js_trim_def last_rev)
  ultimately show "\<not> is_white_space (last (js_trim s))" by simp
  have tne: "?t \<noteq> []"
  proof
    assume e: "?t = []"
    have "?d = []" unfolding e by simp
    with d show False by simp
  qed
  then have nt: "\<not> is_white_space (hd ?t)" by (rule hd_dropWhile)
  have "rev (takeWhile is_white_space (rev ?t) @ ?d) = rev (rev ?t)"
    by (simp only: takeWhile_dropWhile_id)
  then have "rev ?d @ rev (takeWhile is_white_space (rev ?t)) = ?t"
    by (simp only: rev_append rev_rev_ident)
  then have "?t = js_trim s @ rev (takeWhile is_white_space (rev ?t))"
    by (simp add: js_trim_def)
  then have "hd ?t = hd (js_trim s)"
    using assms by (metis hd_append2)
  with nt show "\<not> is_white_space (hd (js_trim s))" by simp
qed

lemma split_codes_strings:
  "split_codes s = map JStr (filter (\<lambda>p. p \<noteq> []) (map js_trim (js_split comma s)))"
proof -
  have "filter truthy (map (\<lambda>s. JStr (js_trim s)) ps) = map JStr (filter (\<lambda>p. p \<noteq> []) (map js_trim ps))" for ps
    by (induction ps) simp_all
  then show ?thesis by (simp add: split_codes_def)
qed

lemma split_codes_example:
  "split_codes (str ''45378, 43235 ,  '') = [JStr (str ''45378''), JStr (str ''43235'')]"
  by (simp add: split_codes_def str_def comma_def js_trim_def is_white_space_def)

lemma read_extracted_lists:
  "read_prop (extracted_codes chartNumber dos tokens (JObj kvs)) ''sdx'' = list_field (read_prop (JObj kvs) ''sdx'')"
  "read_prop (extracted_codes chartNumber dos tokens (JObj kvs)) ''cpt'' = list_field (read_prop (JObj kvs) ''cpt'')"
  by (simp_all add: extracted_codes_def read_prop_def)

lemma read_extracted_any:
  assumes "result \<noteq> JUndefined" and "result \<noteq> JNull"
  shows "read_prop (extracted_codes chartNumber dos tokens result) ''sdx'' = list_field (read_prop result ''sdx'')"
    and "read_prop (extracted_codes chartNumber dos tokens result) ''cpt'' = list_field (read_prop result ''cpt'')"
  using assms by (cases result; simp add: extracted_codes_def read_prop_def)+

section \<open>Where a property read throws\<close>

lemma get_prop_throws: "(get_prop v k = Inl e) = (v = JUndefined \<or> v = JNull)"
  by (cases v; cases e) simp_all

lemma calculateAccuracy_throws:
  "(calculateAccuracy aiCodes userCodes = Inl TypeError) =
     (aiCodes = JUndefined \<or> aiCodes = JNull \<or> userCodes = JUndefined \<or> userCodes = JNull)"
  by (cases aiCodes; cases userCodes) (simp_all add: calculateAccuracy_def)

lemma truthy_not_nullish: "truthy v \<Longrightarrow> v \<noteq> JUndefined \<and> v \<noteq> JNull"
  by (cases v) simp_all

lemma read_prop_nullish:
  "read_prop JUndefined k = JUndefined" "read_prop JNull k = JUndefined"
  by (simp_all add: read_prop_def)

section \<open>The lists of a set comparison\<close>

text \<open>
  The three lists of a set comparison are filters of the AI (or user) sequence by
  membership in the other, so they keep the repetitions of the sequence they filter. On
  sequences without repeated codes they have no repetitions either, and are the
  intersection and the two differences of the sets.
\<close>

lemma set_comparison_filters:
  "on_report (matches \<circ> sdx \<circ> details) (calculateAccuracy (to_js a) (to_js u)) =
     Some (map JStr (filter (\<lambda>c. c \<in> set (secondaryDiagnoses u)) (secondaryDiagnoses a)))
   \<and> on_report (additions \<circ> sdx \<circ> details) (calculateAccuracy (to_js a) (to_js u)) =
     Some (map JStr (filter (\<lambda>c. c \<notin> set (secondaryDiagnoses a)) (secondaryDiagnoses u)))
   \<and> on_report (removals \<circ> sdx \<circ> details) (calculateAccuracy (to_js a) (to_js u)) =
     Some (map JStr (filter (\<lambda>c. c \<notin> set (secondaryDiagnoses u)) (secondaryDiagnoses a)))
   \<and> on_report (matches \<circ> cpt \<circ> details) (calculateAccuracy (to_js a) (to_js u)) =
     Some (map JStr (filter (\<lambda>c. c \<in> set (procedureCodes u)) (procedureCodes a)))
   \<and> on_report (additions \<circ> cpt \<circ> details) (calculateAccuracy (to_js a) (to_js u)) =
     Some (map JStr (filter (\<lambda>c. c \<notin> set (procedureCodes a)) (procedureCodes u)))
   \<and> on_report (removals \<circ> cpt \<circ> details) (calculateAccuracy (to_js a) (to_js u)) =
     Some (map JStr (filter (\<lambda>c. c \<notin> set (procedureCodes u)) (procedureCodes a)))"
  using report_details_to_js[of "matches \<circ> sdx" a u]
        report_details_to_js[of "additions \<circ> sdx" a u]
        report_details_to_js[of "removals \<circ> sdx" a u]
        report_details_to_js[of "matches \<circ> cpt" a u]
        report_details_to_js[of "additions \<circ> cpt" a u]
        report_details_to_js[of "removals \<circ> cpt" a u]
  by (simp add: comp_assoc final_details)

lemma set_comparison_without_repetitions:
  assumes "distinct (secondaryDiagnoses a)" and "distinct (secondaryDiagnoses u)"
  shows "\<exists>ms as rs.
           on_report (matches \<circ> sdx \<circ> details) (calculateAccuracy (to_js a) (to_js u)) = Some (map JStr ms)
         \<and> on_report (additions \<circ> sdx \<circ> details) (calculateAccuracy (to_js a) (to_js u)) = Some (map JStr as)
         \<and> on_report (removals \<circ> sdx \<circ> details) (calculateAccuracy (to_js a) (to_js u)) = Some (map JStr rs)
         \<and> distinct ms \<and> set ms = set (secondaryDiagnoses a) \<inter> set (secondaryDiagnoses u)
         \<and> distinct as \<and> set as = set (secondaryDiagnoses u) - set (secondaryDiagnoses a)
         \<and> distinct rs \<and> set rs = set (secondaryDiagnoses a) - set (secondaryDiagnoses u)"
proof -
  let ?ms = "filter (\<lambda>c. c \<in> set (secondaryDiagnoses u)) (secondaryDiagnoses a)"
  let ?as = "filter (\<lambda>c. c \<notin> set (secondaryDiagnoses a)) (secondaryDiagnoses u)"
  let ?rs = "filter (\<lambda>c. c \<notin> set (secondaryDiagnoses u)) (secondaryDiagnoses a)"
  have "distinct ?ms" "distinct ?as" "distinct ?rs"
    using assms by simp_all
  moreover have "set ?ms = set (secondaryDiagnoses a) \<inter> set (secondaryDiagnoses u)"
    "set ?as = set (secondaryDiagnoses u) - set (secondaryDiagnoses a)"
    "set ?rs = set (secondaryDiagnoses a) - set (secondaryDiagnoses u)"
    by auto
  ultimately show ?thesis
    using set_comparison_filters[of a u] by blast
qed

section \<open>The claims\<close>

text \<open>
  C1. Each of the three scalar blocks, entered with any values of the counters: when the
  AI code and the user code are both the empty string, \<^verbatim>\<open>totalFields\<close> and
  \<^verbatim>\<open>correctFields\<close> are left as they are and the flag of the returned report is false;
  when one of them is not empty, \<^verbatim>\<open>totalFields\<close> grows by exactly 1, \<^verbatim>\<open>correctFields\<close>
  grows by 1 if the two strings are equal and by 0 otherwise, and the flag says whether
  they are equal.
\<close>

theorem scalar_field_contribution:
  "totalFields (admit_dx_block (to_js a) (to_js u) st) =
     totalFields st + (if admitDiagnosis a = [] \<and> admitDiagnosis u = [] then 0 else 1)
   \<and> correctFields (admit_dx_block (to_js a) (to_js u) st) =
     correctFields st + (if admitDiagnosis a = [] \<and> admitDiagnosis u = [] then 0
                         else if admitDiagnosis a = admitDiagnosis u then 1 else 0)
   \<and> on_report (match \<circ> admit_dx \<circ> details) (calculateAccuracy (to_js a) (to_js u)) =
     Some (\<not> (admitDiagnosis a = [] \<and> admitDiagnosis u = []) \<and> admitDiagnosis a = admitDiagnosis u)
   \<and> totalFields (pdx_block (to_js a) (to_js u) st) =
     totalFields st + (if principalDiagnosis a = [] \<and> principalDiagnosis u = [] then 0 else 1)
   \<and> correctFields (pdx_block (to_js a) (to_js u) st) =
     correctFields st + (if principalDiagnosis a = [] \<and> principalDiagnosis u = [] then 0
                         else if principalDiagnosis a = principalDiagnosis u then 1 else 0)
   \<and> on_report (match \<circ> pdx \<circ> details) (calculateAccuracy (to_js a) (to_js u)) =
     Some (\<not> (principalDiagnosis a = [] \<and> principalDiagnosis u = []) \<and> principalDiagnosis a = principalDiagnosis u)
   \<and> totalFields (modifier_block (to_js a) (to_js u) st) =
     totalFields st + (if modifierCode a = [] \<and> modifierCode u = [] then 0 else 1)
   \<and> correctFields (modifier_block (to_js a) (to_js u) st) =
     correctFields st + (if modifierCode a = [] \<and> modifierCode u = [] then 0
                         else if modifierCode a = modifierCode u then 1 else 0)
   \<and> on_report (match \<circ> modifier \<circ> details) (calculateAccuracy (to_js a) (to_js u)) =
     Some (\<not> (modifierCode a = [] \<and> modifierCode u = []) \<and> modifierCode a = modifierCode u)"
proof -
  have flags:
    "on_report (match \<circ> admit_dx \<circ> details) (calculateAccuracy (to_js a) (to_js u)) =
       Some (match (admit_dx (details (final_locals (to_js a) (to_js u)))))"
    "on_report (match \<circ> pdx \<circ> details) (calculateAccuracy (to_js a) (to_js u)) =
       Some (match (pdx (details (final_locals (to_js a) (to_js u)))))"
    "on_report (match \<circ> modifier \<circ> details) (calculateAccuracy (to_js a) (to_js u)) =
       Some (match (modifier (details (final_locals (to_js a) (to_js u)))))"
    using report_details_to_js[of "match \<circ> admit_dx" a u]
          report_details_to_js[of "match \<circ> pdx" a u]
          report_details_to_js[of "match \<circ> modifier" a u]
    by (simp_all add: comp_assoc)
  show ?thesis
    unfolding flags final_details
    by (auto simp: blocks_typed)
qed

theorem scalar_field_contribution_witness:
  "totalFields (admit_dx_block (to_js sampleAi) (to_js sampleUser) (init_locals (to_js sampleAi) (to_js sampleUser))) = 1
   \<and> correctFields (admit_dx_block (to_js sampleAi) (to_js sampleUser) (init_locals (to_js sampleAi) (to_js sampleUser))) = 0
   \<and> on_report (match \<circ> admit_dx \<circ> details) (calculateAccuracy (to_js sampleAi) (to_js sampleUser)) = Some False
   \<and> totalFields (pdx_block (to_js sampleAi) (to_js sampleUser) (init_locals (to_js sampleAi) (to_js sampleUser))) = 1
   \<and> correctFields (pdx_block (to_js sampleAi) (to_js sampleUser) (init_locals (to_js sampleAi) (to_js sampleUser))) = 1
   \<and> on_report (match \<circ> pdx \<circ> details) (calculateAccuracy (to_js sampleAi) (to_js sampleUser)) = Some True
   \<and> totalFields (modifier_block (to_js sampleAi) (to_js sampleUser) (init_locals (to_js sampleAi) (to_js sampleUser))) = 0
   \<and> correctFields (modifier_block (to_js sampleAi) (to_js sampleUser) (init_locals (to_js sampleAi) (to_js sampleUser))) = 0
   \<and> on_report (match \<circ> modifier \<circ> details) (calculateAccuracy (to_js sampleAi) (to_js sampleUser)) = Some False"
  using scalar_field_contribution[of sampleAi sampleUser "init_locals (to_js sampleAi) (to_js sampleUser)"]
  by (simp add: sampleAi_def sampleUser_def init_locals_def)

text \<open>
  C2, at a failing input: the AI sequence \<^verbatim>\<open>["I10", "I10"]\<close> against the user sequence
  \<^verbatim>\<open>["I10"]\<close>. The union has one element and so has the intersection, and the block
  adds 1 to \<^verbatim>\<open>totalFields\<close>, but it adds 2 to \<^verbatim>\<open>correctFields\<close>: \<^verbatim>\<open>matches.length\<close>
  counts the repeated code twice.
\<close>

theorem repeated_code_counted_twice:
  "totalFields (sdx_block (to_js repeatedAi) (to_js repeatedUser) st) = totalFields st + 1
   \<and> correctFields (sdx_block (to_js repeatedAi) (to_js repeatedUser) st) = correctFields st + 2
   \<and> card (set (secondaryDiagnoses repeatedAi) \<union> set (secondaryDiagnoses repeatedUser)) = 1
   \<and> card (set (secondaryDiagnoses repeatedAi) \<inter> set (secondaryDiagnoses repeatedUser)) = 1"
  by (simp add: blocks_typed repeatedAi_def repeatedUser_def emptyResult_def)

theorem repeated_code_counted_twice_witness:
  "correctFields (sdx_block (to_js repeatedAi) (to_js repeatedUser)
      (init_locals (to_js repeatedAi) (to_js repeatedUser))) = 2"
  using repeated_code_counted_twice[of "init_locals (to_js repeatedAi) (to_js repeatedUser)"]
  by (simp add: init_locals_def)

text \<open>
  C3. The percentage of the returned report is 100 when \<^verbatim>\<open>totalFields\<close> (the
  denominator) is 0, which is exactly when every scalar code is the empty string and
  every sequence is empty on both sides, as for \<open>emptyResult\<close> against itself. Otherwise
  it is \<^verbatim>\<open>correctFields / totalFields * 100\<close> rounded to two decimals the way line 337
  does it, \<^verbatim>\<open>Math.round(x * 100) / 100\<close>, every operation in double arithmetic.
\<close>

theorem percentage_formula:
  "on_report percentage (calculateAccuracy (to_js a) (to_js u)) =
     Some (let numerator = correctFields (final_locals (to_js a) (to_js u));
               denominator = totalFields (final_locals (to_js a) (to_js u))
           in if denominator = 0 then 100
              else js_div (Math_round (js_mul
                     (js_mul (js_div (of_nat numerator) (of_nat denominator)) 100) 100)) 100)
   \<and> (totalFields (final_locals (to_js a) (to_js u)) = 0) =
       (admitDiagnosis a = [] \<and> admitDiagnosis u = []
        \<and> principalDiagnosis a = [] \<and> principalDiagnosis u = []
        \<and> modifierCode a = [] \<and> modifierCode u = []
        \<and> secondaryDiagnoses a = [] \<and> secondaryDiagnoses u = []
        \<and> procedureCodes a = [] \<and> procedureCodes u = [])
   \<and> on_report percentage (calculateAccuracy (to_js emptyResult) (to_js emptyResult)) = Some 100"
proof -
  have one: "on_report percentage (calculateAccuracy (to_js a) (to_js u)) =
     Some (let numerator = correctFields (final_locals (to_js a) (to_js u));
               denominator = totalFields (final_locals (to_js a) (to_js u))
           in if denominator = 0 then 100
              else js_div (Math_round (js_mul
                     (js_mul (js_div (of_nat numerator) (of_nat denominator)) 100) 100)) 100)"
    by (simp add: report_percentage_to_js make_report_def Let_def round2_100)
  have two: "(totalFields (final_locals (to_js a) (to_js u)) = 0) =
       (admitDiagnosis a = [] \<and> admitDiagnosis u = []
        \<and> principalDiagnosis a = [] \<and> principalDiagnosis u = []
        \<and> modifierCode a = [] \<and> modifierCode u = []
        \<and> secondaryDiagnoses a = [] \<and> secondaryDiagnoses u = []
        \<and> procedureCodes a = [] \<and> procedureCodes u = [])"
    unfolding final_totalFields by auto
  have three: "on_report percentage (calculateAccuracy (to_js emptyResult) (to_js emptyResult)) = Some 100"
    by (simp add: report_percentage_to_js make_report_def Let_def round2_100
        final_totalFields emptyResult_def)
  from one two three show ?thesis by blast
qed

theorem percentage_formula_witness:
  "on_report percentage (calculateAccuracy (to_js sampleAi) (to_js sampleUser)) =
     Some (to_double (4286 / 100))"
  using percentage_formula[of sampleAi sampleUser]
  by (simp add: sample_counts sample_rounding)

text \<open>
  C4, at a failing input: a result whose secondary diagnoses are \<^verbatim>\<open>["I10", "I10"]\<close>,
  compared with itself, scores 200.
\<close>

theorem self_comparison_with_repetition:
  "on_report percentage (calculateAccuracy (to_js repeatedAi) (to_js repeatedAi)) = Some 200"
  using round2_200
  by (simp add: report_percentage_to_js make_report_def Let_def final_totalFields final_correctFields
      repeatedAi_def emptyResult_def)

theorem self_comparison_with_repetition_witness:
  "on_report percentage (calculateAccuracy (to_js repeatedAi) (to_js repeatedAi)) \<noteq> Some 100"
  using self_comparison_with_repetition by simp

text \<open>
  C5, at failing inputs. The claim takes the AI and user sequences as sets: a code that
  is in both is one match, however often the AI sequence repeats it. The code filters
  the sequences and keeps every repetition: the AI sequence \<^verbatim>\<open>["I10", "I10"]\<close> against the
  user sequence \<^verbatim>\<open>["I10"]\<close> gives \<^verbatim>\<open>matches = ["I10", "I10"]\<close>, though the two sets share
  the single code \<^verbatim>\<open>I10\<close>; against an empty user sequence it gives
  \<^verbatim>\<open>removals = ["I10", "I10"]\<close>, and as the user sequence against an empty AI sequence
  \<^verbatim>\<open>additions = ["I10", "I10"]\<close>.
\<close>

theorem matches_keep_repetitions:
  "on_report (matches \<circ> sdx \<circ> details) (calculateAccuracy (to_js repeatedAi) (to_js repeatedUser)) =
     Some [JStr (str ''I10''), JStr (str ''I10'')]
   \<and> set (secondaryDiagnoses repeatedAi) \<inter> set (secondaryDiagnoses repeatedUser) = {str ''I10''}
   \<and> on_report (removals \<circ> sdx \<circ> details) (calculateAccuracy (to_js repeatedAi) (to_js emptyResult)) =
     Some [JStr (str ''I10''), JStr (str ''I10'')]
   \<and> set (secondaryDiagnoses repeatedAi) - set (secondaryDiagnoses emptyResult) = {str ''I10''}
   \<and> on_report (additions \<circ> sdx \<circ> details) (calculateAccuracy (to_js emptyResult) (to_js repeatedAi)) =
     Some [JStr (str ''I10''), JStr (str ''I10'')]"
  using set_comparison_filters[of repeatedAi repeatedUser]
        set_comparison_filters[of repeatedAi emptyResult]
        set_comparison_filters[of emptyResult repeatedAi]
  by (simp add: repeatedAi_def repeatedUser_def emptyResult_def)

theorem matches_keep_repetitions_witness:
  "map_option length
     (on_report (matches \<circ> sdx \<circ> details) (calculateAccuracy (to_js repeatedAi) (to_js repeatedUser))) =
     Some 2
   \<and> card (set (secondaryDiagnoses repeatedAi) \<inter> set (secondaryDiagnoses repeatedUser)) = 1"
  using matches_keep_repetitions by simp

text \<open>
  C6, as stated, fails: with both codes absent the recorded flag is false, where the
  claim has it true. The guard of each scalar block skips the field then, and the flag
  keeps its initial value.
\<close>

theorem match_flag_both_absent_counterexample:
  "on_report (match \<circ> admit_dx \<circ> details) (calculateAccuracy (to_js emptyResult) (to_js emptyResult))
     \<noteq> Some ((admitDiagnosis emptyResult \<noteq> [] \<and> admitDiagnosis emptyResult \<noteq> []
               \<and> admitDiagnosis emptyResult = admitDiagnosis emptyResult)
            \<or> (admitDiagnosis emptyResult = [] \<and> admitDiagnosis emptyResult = []))"
  using report_details_to_js[of "match \<circ> admit_dx" emptyResult emptyResult]
  by (simp add: comp_assoc final_details emptyResult_def)

text \<open>
  C6, amended. The recorded flag of each scalar comparison is true if and only if both
  codes are present (not the empty string) and textually identical; when both are
  absent it is false.
\<close>

theorem match_flag_present_and_identical:
  "on_report (match \<circ> admit_dx \<circ> details) (calculateAccuracy (to_js a) (to_js u)) =
     Some (admitDiagnosis a \<noteq> [] \<and> admitDiagnosis u \<noteq> [] \<and> admitDiagnosis a = admitDiagnosis u)
   \<and> on_report (match \<circ> pdx \<circ> details) (calculateAccuracy (to_js a) (to_js u)) =
     Some (principalDiagnosis a \<noteq> [] \<and> principalDiagnosis u \<noteq> [] \<and> principalDiagnosis a = principalDiagnosis u)
   \<and> on_report (match \<circ> modifier \<circ> details) (calculateAccuracy (to_js a) (to_js u)) =
     Some (modifierCode a \<noteq> [] \<and> modifierCode u \<noteq> [] \<and> modifierCode a = modifierCode u)"
  using report_details_to_js[of "match \<circ> admit_dx" a u]
        report_details_to_js[of "match \<circ> pdx" a u]
        report_details_to_js[of "match \<circ> modifier" a u]
  by (auto simp: comp_assoc final_details)

theorem match_flag_present_and_identical_witness:
  "on_report (match \<circ> admit_dx \<circ> details) (calculateAccuracy (to_js sampleAi) (to_js sampleUser)) = Some False
   \<and> on_report (match \<circ> pdx \<circ> details) (calculateAccuracy (to_js sampleAi) (to_js sampleUser)) = Some True
   \<and> on_report (match \<circ> modifier \<circ> details) (calculateAccuracy (to_js sampleAi) (to_js sampleUser)) = Some False"
  using match_flag_present_and_identical[of sampleAi sampleUser]
  by (simp add: sampleAi_def sampleUser_def)

text \<open>
  C7, at a failing input: the AI procedure codes \<^verbatim>\<open>["45378", "45378", "45378"]\<close>
  against the user's \<^verbatim>\<open>["45378"]\<close> score 300, which is not between 0 and 100.
\<close>

theorem percentage_above_100:
  "on_report percentage (calculateAccuracy (to_js tripledAi) (to_js tripledUser)) = Some 300"
  using round2_300
  by (simp add: report_percentage_to_js make_report_def Let_def final_totalFields final_correctFields
      tripledAi_def tripledUser_def emptyResult_def)

theorem percentage_above_100_witness:
  "map_option (\<lambda>p. 0 \<le> p \<and> p \<le> 100)
     (on_report percentage (calculateAccuracy (to_js tripledAi) (to_js tripledUser))) = Some False"
  using percentage_above_100 by simp

text \<open>
  C8. A list field that arrives as a string \<open>s\<close> becomes the array of the pieces of \<open>s\<close>
  between its commas, each trimmed, the empty ones dropped, in their order in \<open>s\<close>. The
  pieces are a split of \<open>s\<close>: joined by commas they give \<open>s\<close> back, and none contains a
  comma. A trimmed piece is the piece without the white space at its two ends. This is
  what the returned object holds under \<^verbatim>\<open>cpt\<close> and \<^verbatim>\<open>sdx\<close> for every reply whose field is
  a string, so \<^verbatim>\<open>{cpt: "45378, 43235 ,  "}\<close> gives \<^verbatim>\<open>["45378", "43235"]\<close>; and for every
  reply that has no such field it holds the empty array.
\<close>

theorem string_list_coercion:
  "list_field (JStr s) =
     JArr (map JStr (filter (\<lambda>p. p \<noteq> []) (map js_trim (js_split comma s))))
   \<and> joined comma (js_split comma s) = s
   \<and> (\<forall>p \<in> set (js_split comma s). comma \<notin> set p)
   \<and> (\<forall>p. \<exists>l r. p = l @ js_trim p @ r \<and> list_all is_white_space l \<and> list_all is_white_space r)
   \<and> (\<forall>p. js_trim p \<noteq> [] \<longrightarrow>
          \<not> is_white_space (hd (js_trim p)) \<and> \<not> is_white_space (last (js_trim p)))
   \<and> (map_of kvs ''cpt'' = Some (JStr s) \<longrightarrow>
        read_prop (extracted_codes chartNumber dos tokens (JObj kvs)) ''cpt'' =
          JArr (map JStr (filter (\<lambda>p. p \<noteq> []) (map js_trim (js_split comma s)))))
   \<and> (map_of kvs ''sdx'' = Some (JStr s) \<longrightarrow>
        read_prop (extracted_codes chartNumber dos tokens (JObj kvs)) ''sdx'' =
          JArr (map JStr (filter (\<lambda>p. p \<noteq> []) (map js_trim (js_split comma s)))))
   \<and> read_prop (extracted_codes chartNumber dos tokens
        (JObj [(''cpt'', JStr (str ''45378, 43235 ,  ''))])) ''cpt'' =
       JArr [JStr (str ''45378''), JStr (str ''43235'')]
   \<and> (map_of kvs ''cpt'' = None \<longrightarrow>
        read_prop (extracted_codes chartNumber dos tokens (JObj kvs)) ''cpt'' = JArr [])
   \<and> (map_of kvs ''sdx'' = None \<longrightarrow>
        read_prop (extracted_codes chartNumber dos tokens (JObj kvs)) ''sdx'' = JArr [])
   \<and> (result \<noteq> JUndefined \<and> result \<noteq> JNull \<and> read_prop result ''cpt'' = JUndefined \<longrightarrow>
        read_prop (extracted_codes chartNumber dos tokens result) ''cpt'' = JArr [])
   \<and> (result \<noteq> JUndefined \<and> result \<noteq> JNull \<and> read_prop result ''sdx'' = JUndefined \<longrightarrow>
        read_prop (extracted_codes chartNumber dos tokens result) ''sdx'' = JArr [])"
proof -
  have a: "list_field (JStr s) =
     JArr (map JStr (filter (\<lambda>p. p \<noteq> []) (map js_trim (js_split comma s))))"
  proof (cases "s = []")
    case True
    then show ?thesis by (simp add: list_field_def js_or_def js_trim_def)
  next
    case False
    then show ?thesis by (simp add: list_field_def js_or_def split_codes_strings)
  qed
  have b: "\<forall>p \<in> set (js_split comma s). comma \<notin> set p"
    using js_split_no_sep by blast
  have c: "\<forall>p. \<exists>l r. p = l @ js_trim p @ r \<and> list_all is_white_space l \<and> list_all is_white_space r"
    using js_trim_decomposition by blast
  have d: "\<forall>p. js_trim p \<noteq> [] \<longrightarrow>
          \<not> is_white_space (hd (js_trim p)) \<and> \<not> is_white_space (last (js_trim p))"
    using js_trim_ends by blast
  have e: "map_of kvs ''cpt'' = Some (JStr s) \<longrightarrow>
        read_prop (extracted_codes chartNumber dos tokens (JObj kvs)) ''cpt'' =
          JArr (map JStr (filter (\<lambda>p. p \<noteq> []) (map js_trim (js_split comma s))))"
    "map_of kvs ''sdx'' = Some (JStr s) \<longrightarrow>
        read_prop (extracted_codes chartNumber dos tokens (JObj kvs)) ''sdx'' =
          JArr (map JStr (filter (\<lambda>p. p \<noteq> []) (map js_trim (js_split comma s))))"
    unfolding read_extracted_lists using a by (simp_all add: read_prop_def)
  have f: "read_prop (extracted_codes chartNumber dos tokens
        (JObj [(''cpt'', JStr (str ''45378, 43235 ,  ''))])) ''cpt'' =
       JArr [JStr (str ''45378''), JStr (str ''43235'')]"
    unfolding read_extracted_lists
    by (simp add: read_prop_def list_field_def js_or_def split_codes_example)
  have g: "map_of kvs ''cpt'' = None \<longrightarrow>
        read_prop (extracted_codes chartNumber dos tokens (JObj kvs)) ''cpt'' = JArr []"
    "map_of kvs ''sdx'' = None \<longrightarrow>
        read_prop (extracted_codes chartNumber dos tokens (JObj kvs)) ''sdx'' = JArr []"
    unfolding read_extracted_lists by (simp_all add: read_prop_def list_field_def js_or_def)
  have h: "result \<noteq> JUndefined \<and> result \<noteq> JNull \<and> read_prop result ''cpt'' = JUndefined \<longrightarrow>
        read_prop (extracted_codes chartNumber dos tokens result) ''cpt'' = JArr []"
    "result \<noteq> JUndefined \<and> result \<noteq> JNull \<and> read_prop result ''sdx'' = JUndefined \<longrightarrow>
        read_prop (extracted_codes chartNumber dos tokens result) ''sdx'' = JArr []"
    using read_extracted_any[of result chartNumber dos tokens]
    by (simp_all add: list_field_def js_or_def)
  from a joined_js_split[of comma s] b c d e f g h show ?thesis by blast
qed

theorem string_list_coercion_witness:
  "list_field (JStr (str ''E78.5,, I10 '')) = JArr [JStr (str ''E78.5''), JStr (str ''I10'')]
   \<and> joined comma (js_split comma (str ''E78.5,, I10 '')) = str ''E78.5,, I10 ''
   \<and> js_split comma (str ''E78.5,, I10 '') = [str ''E78.5'', [], str '' I10 '']
   \<and> js_trim (str '' I10 '') = str ''I10''
   \<and> js_trim ([65279, 9] @ str ''I10'' @ [12288, 8232]) = str ''I10''
   \<and> read_prop (extracted_codes JNull JNull JNull
        (JObj [(''cpt'', JStr (str ''E78.5,, I10 ''))])) ''cpt'' =
       JArr [JStr (str ''E78.5''), JStr (str ''I10'')]
   \<and> read_prop (extracted_codes JNull JNull JNull
        (JObj [(''cpt'', JStr (str ''E78.5,, I10 ''))])) ''sdx'' = JArr []"
proof -
  have sp: "js_split comma (str ''E78.5,, I10 '') = [str ''E78.5'', [], str '' I10 '']"
    by (simp add: str_def comma_def)
  have tr: "js_trim (str '' I10 '') = str ''I10''" "js_trim (str ''E78.5'') = str ''E78.5''"
    "js_trim [] = []" "js_trim ([65279, 9] @ str ''I10'' @ [12288, 8232]) = str ''I10''"
    by (simp_all add: str_def js_trim_def is_white_space_def)
  have m: "map_of [(''cpt'', JStr (str ''E78.5,, I10 ''))] ''cpt'' = Some (JStr (str ''E78.5,, I10 ''))"
    "map_of [(''cpt'', JStr (str ''E78.5,, I10 ''))] ''sdx'' = None"
    by simp_all
  note all = string_list_coercion[of "str ''E78.5,, I10 ''" "[(''cpt'', JStr (str ''E78.5,, I10 ''))]"
            JNull JNull JNull JNull]
  have one: "list_field (JStr (str ''E78.5,, I10 '')) = JArr [JStr (str ''E78.5''), JStr (str ''I10'')]"
    using all by (simp add: sp tr)
  have two: "joined comma (js_split comma (str ''E78.5,, I10 '')) = str ''E78.5,, I10 ''"
    using all by blast
  have three: "read_prop (extracted_codes JNull JNull JNull
        (JObj [(''cpt'', JStr (str ''E78.5,, I10 ''))])) ''cpt'' =
       JArr [JStr (str ''E78.5''), JStr (str ''I10'')]"
    using all m(1) by (simp add: sp tr)
  have four: "read_prop (extracted_codes JNull JNull JNull
        (JObj [(''cpt'', JStr (str ''E78.5,, I10 ''))])) ''sdx'' = JArr []"
    using all m(2) by blast
  from one two sp tr(1,4) three four show ?thesis by blast
qed

text \<open>
  C9, as stated, fails in its second half: a request whose \<^verbatim>\<open>document_key\<close> is there and
  is the empty string, with \<^verbatim>\<open>original\<close> and \<^verbatim>\<open>corrected\<close> both given, has both required
  values present, and the handler refuses it without a call of the engine. The guard of
  line 674 is \<^verbatim>\<open>!document_key || !corrected\<close>, which is true of the empty string.
\<close>

theorem empty_document_key_counterexample:
  "read_prop body_empty_key ''document_key'' \<noteq> JUndefined
   \<and> read_prop body_empty_key ''corrected'' \<noteq> JUndefined
   \<and> engine_calls (submit_corrections body_empty_key) = []
   \<and> status (response (submit_corrections body_empty_key)) = 400"
  by (simp add: body_empty_key_def submit_corrections_def read_prop_def to_js_def Let_def)

text \<open>
  C9, amended. The handler tests \<^verbatim>\<open>!document_key || !corrected\<close>: a property that is
  missing reads as \<^verbatim>\<open>undefined\<close>, which is falsy, as are \<^verbatim>\<open>null\<close> and the empty string.
  For every request body in which \<^verbatim>\<open>document_key\<close> or \<^verbatim>\<open>corrected\<close> is missing or otherwise
  falsy the handler answers with an error (400 and the message that both are required;
  500 when there is no body to destructure), calls \<^verbatim>\<open>calculateAccuracy\<close> not once and
  updates nothing. For every request body in which both are truthy it calls
  \<^verbatim>\<open>calculateAccuracy\<close> once, on \<^verbatim>\<open>original\<close> and \<^verbatim>\<open>corrected\<close>, and what the engine does decides
  the rest: the report it returns is the \<^verbatim>\<open>accuracy\<close> of the 200 response and is what the
  update stores, and the error it throws is answered 500 with no update.
\<close>

theorem missing_input_refused:
  "(\<not> truthy (read_prop req_body ''document_key'') \<or> \<not> truthy (read_prop req_body ''corrected'') \<longrightarrow>
      engine_calls (submit_corrections req_body) = []
      \<and> db_updates (submit_corrections req_body) = []
      \<and> response (submit_corrections req_body) =
          (if req_body = JUndefined \<or> req_body = JNull
           then \<lparr> status = 500, body = Failure (Message_of TypeError) \<rparr>
           else \<lparr> status = 400,
                  body = Failure (Literal ''document_key and corrected data are required'') \<rparr>))
   \<and> (map_of kvs ''document_key'' = None \<or> map_of kvs ''corrected'' = None \<longrightarrow>
      engine_calls (submit_corrections (JObj kvs)) = []
      \<and> status (response (submit_corrections (JObj kvs))) = 400)
   \<and> (truthy (read_prop req_body ''document_key'') \<and> truthy (read_prop req_body ''corrected'') \<longrightarrow>
      engine_calls (submit_corrections req_body) =
        [(read_prop req_body ''original'', read_prop req_body ''corrected'')]
      \<and> (case calculateAccuracy (read_prop req_body ''original'') (read_prop req_body ''corrected'') of
            Inl e \<Rightarrow>
              response (submit_corrections req_body) =
                \<lparr> status = 500, body = Failure (Message_of e) \<rparr>
              \<and> db_updates (submit_corrections req_body) = []
          | Inr accuracyResult \<Rightarrow>
              response (submit_corrections req_body) =
                \<lparr> status = 200,
                  body = Success (read_prop req_body ''document_key'')
                           (read_prop req_body ''chart_number'') accuracyResult \<rparr>
              \<and> db_updates (submit_corrections req_body) =
                [\<lparr> user_admit_dx = read_prop (read_prop req_body ''corrected'') ''admit_dx'',
                   user_pdx = read_prop (read_prop req_body ''corrected'') ''pdx'',
                   user_sdx = read_prop (read_prop req_body ''corrected'') ''sdx'',
                   user_cpt = read_prop (read_prop req_body ''corrected'') ''cpt'',
                   user_modifier = read_prop (read_prop req_body ''corrected'') ''modifier'',
                   accuracy_percentage = percentage accuracyResult,
                   accuracy_details = details accuracyResult,
                   edit_reasons = read_prop req_body ''edit_reasons'',
                   remarks = read_prop req_body ''remarks'',
                   document_key = read_prop req_body ''document_key'' \<rparr>]))"
proof -
  have nullish: "engine_calls (submit_corrections req_body) = []
      \<and> db_updates (submit_corrections req_body) = []
      \<and> response (submit_corrections req_body) = \<lparr> status = 500, body = Failure (Message_of TypeError) \<rparr>"
    if "req_body = JUndefined \<or> req_body = JNull"
    using that by (auto simp: submit_corrections_def)
  have refused: "engine_calls (submit_corrections req_body) = []
      \<and> db_updates (submit_corrections req_body) = []
      \<and> response (submit_corrections req_body) =
           \<lparr> status = 400, body = Failure (Literal ''document_key and corrected data are required'') \<rparr>"
    if "\<not> (req_body = JUndefined \<or> req_body = JNull)"
      and "\<not> truthy (read_prop req_body ''document_key'') \<or> \<not> truthy (read_prop req_body ''corrected'')"
    using that by (cases req_body) (auto simp: submit_corrections_def Let_def)
  have one: "\<not> truthy (read_prop req_body ''document_key'') \<or> \<not> truthy (read_prop req_body ''corrected'') \<longrightarrow>
      engine_calls (submit_corrections req_body) = []
      \<and> db_updates (submit_corrections req_body) = []
      \<and> response (submit_corrections req_body) =
          (if req_body = JUndefined \<or> req_body = JNull
           then \<lparr> status = 500, body = Failure (Message_of TypeError) \<rparr>
           else \<lparr> status = 400,
                  body = Failure (Literal ''document_key and corrected data are required'') \<rparr>)"
    using nullish refused by (cases "req_body = JUndefined \<or> req_body = JNull") simp_all
  have two: "map_of kvs ''document_key'' = None \<or> map_of kvs ''corrected'' = None \<longrightarrow>
      engine_calls (submit_corrections (JObj kvs)) = []
      \<and> status (response (submit_corrections (JObj kvs))) = 400"
    by (auto simp: submit_corrections_def Let_def read_prop_def)
  have three: "truthy (read_prop req_body ''document_key'') \<and> truthy (read_prop req_body ''corrected'') \<longrightarrow>
      engine_calls (submit_corrections req_body) =
        [(read_prop req_body ''original'', read_prop req_body ''corrected'')]
      \<and> (case calculateAccuracy (read_prop req_body ''original'') (read_prop req_body ''corrected'') of
            Inl e \<Rightarrow>
              response (submit_corrections req_body) =
                \<lparr> status = 500, body = Failure (Message_of e) \<rparr>
              \<and> db_updates (submit_corrections req_body) = []
          | Inr accuracyResult \<Rightarrow>
              response (submit_corrections req_body) =
                \<lparr> status = 200,
                  body = Success (read_prop req_body ''document_key'')
                           (read_prop req_body ''chart_number'') accuracyResult \<rparr>
              \<and> db_updates (submit_corrections req_body) =
                [\<lparr> user_admit_dx = read_prop (read_prop req_body ''corrected'') ''admit_dx'',
                   user_pdx = read_prop (read_prop req_body ''corrected'') ''pdx'',
                   user_sdx = read_prop (read_prop req_body ''corrected'') ''sdx'',
                   user_cpt = read_prop (read_prop req_body ''corrected'') ''cpt'',
                   user_modifier = read_prop (read_prop req_body ''corrected'') ''modifier'',
                   accuracy_percentage = percentage accuracyResult,
                   accuracy_details = details accuracyResult,
                   edit_reasons = read_prop req_body ''edit_reasons'',
                   remarks = read_prop req_body ''remarks'',
                   document_key = read_prop req_body ''document_key'' \<rparr>])"
    by (cases req_body)
       (auto simp: submit_corrections_def call_calculateAccuracy_def Let_def read_prop_nullish
             split: sum.splits)
  from one two three show ?thesis by blast
qed

theorem missing_input_refused_witness:
  "engine_calls (submit_corrections body_without_key) = []
   \<and> status (response (submit_corrections body_without_key)) = 400
   \<and> engine_calls (submit_corrections body_without_corrected) = []
   \<and> status (response (submit_corrections body_without_corrected)) = 400
   \<and> engine_calls (submit_corrections body_complete) = [(to_js sampleAi, to_js sampleUser)]
   \<and> response (submit_corrections body_complete) =
       \<lparr> status = 200,
         body = Success (JStr (str ''doc-1'')) JUndefined
                  (make_report (final_locals (to_js sampleAi) (to_js sampleUser))) \<rparr>
   \<and> map accuracy_percentage (db_updates (submit_corrections body_complete)) =
       [to_double (4286 / 100)]"
proof -
  have p: "percentage (make_report (final_locals (to_js sampleAi) (to_js sampleUser))) =
      to_double (4286 / 100)"
    by (simp add: make_report_def Let_def sample_counts sample_rounding)
  have r: "read_prop body_without_key ''document_key'' = JUndefined"
    "read_prop body_without_corrected ''corrected'' = JUndefined"
    "read_prop body_complete ''document_key'' = JStr (str ''doc-1'')"
    "read_prop body_complete ''corrected'' = to_js sampleUser"
    "read_prop body_complete ''original'' = to_js sampleAi"
    "read_prop body_complete ''chart_number'' = JUndefined"
    by (simp_all add: body_without_key_def body_without_corrected_def body_complete_def read_prop_def)
  have t: "truthy (to_js sampleUser)" "truthy (JStr (str ''doc-1''))"
    by (simp_all add: to_js_def)
  have n: "body_without_key \<noteq> JUndefined" "body_without_key \<noteq> JNull"
    "body_without_corrected \<noteq> JUndefined" "body_without_corrected \<noteq> JNull"
    by (simp_all add: body_without_key_def body_without_corrected_def)
  show ?thesis
    using missing_input_refused[of body_without_key "[]"]
          missing_input_refused[of body_without_corrected "[]"]
          missing_input_refused[of body_complete "[]"]
    by (simp add: r t n p calculateAccuracy_to_js)
qed

text \<open>
  C10. \<^verbatim>\<open>calculateAccuracy\<close> throws a TypeError when either argument is \<^verbatim>\<open>undefined\<close> or
  \<^verbatim>\<open>null\<close>, and only then; it does not treat such an argument as an empty result. The
  handler checks \<^verbatim>\<open>document_key\<close> and \<^verbatim>\<open>corrected\<close> only: a request that has both and no
  \<^verbatim>\<open>original\<close> calls the engine with \<^verbatim>\<open>undefined\<close> as its first argument, the engine
  throws, and the request is answered 500 with no report and no update.
\<close>

theorem engine_throws_on_missing_argument:
  "calculateAccuracy JUndefined userCodes = Inl TypeError
   \<and> calculateAccuracy JNull userCodes = Inl TypeError
   \<and> calculateAccuracy aiCodes JUndefined = Inl TypeError
   \<and> calculateAccuracy aiCodes JNull = Inl TypeError
   \<and> (calculateAccuracy aiCodes userCodes = Inl TypeError) =
       (aiCodes = JUndefined \<or> aiCodes = JNull \<or> userCodes = JUndefined \<or> userCodes = JNull)
   \<and> (truthy (read_prop (JObj kvs) ''document_key'') \<and> truthy (read_prop (JObj kvs) ''corrected'')
        \<and> map_of kvs ''original'' = None \<longrightarrow>
      engine_calls (submit_corrections (JObj kvs)) = [(JUndefined, read_prop (JObj kvs) ''corrected'')]
      \<and> response (submit_corrections (JObj kvs)) =
           \<lparr> status = 500, body = Failure (Message_of TypeError) \<rparr>
      \<and> db_updates (submit_corrections (JObj kvs)) = [])"
proof -
  have h: "truthy (read_prop (JObj kvs) ''document_key'') \<and> truthy (read_prop (JObj kvs) ''corrected'')
        \<and> map_of kvs ''original'' = None \<longrightarrow>
      engine_calls (submit_corrections (JObj kvs)) = [(JUndefined, read_prop (JObj kvs) ''corrected'')]
      \<and> response (submit_corrections (JObj kvs)) =
           \<lparr> status = 500, body = Failure (Message_of TypeError) \<rparr>
      \<and> db_updates (submit_corrections (JObj kvs)) = []"
  proof
    assume a: "truthy (read_prop (JObj kvs) ''document_key'') \<and> truthy (read_prop (JObj kvs) ''corrected'')
        \<and> map_of kvs ''original'' = None"
    then have o: "read_prop (JObj kvs) ''original'' = JUndefined"
      by (simp add: read_prop_def)
    have "calculateAccuracy JUndefined (read_prop (JObj kvs) ''corrected'') = Inl TypeError"
      by (simp add: calculateAccuracy_throws)
    with a o show "engine_calls (submit_corrections (JObj kvs)) = [(JUndefined, read_prop (JObj kvs) ''corrected'')]
      \<and> response (submit_corrections (JObj kvs)) =
           \<lparr> status = 500, body = Failure (Message_of TypeError) \<rparr>
      \<and> db_updates (submit_corrections (JObj kvs)) = []"
      by (simp add: submit_corrections_def call_calculateAccuracy_def Let_def)
  qed
  show ?thesis
    using h calculateAccuracy_throws[of aiCodes userCodes]
    by (simp add: calculateAccuracy_throws)
qed

theorem engine_throws_on_missing_argument_witness:
  "calculateAccuracy JUndefined (to_js sampleUser) = Inl TypeError
   \<and> engine_calls (submit_corrections body_without_original) = [(JUndefined, to_js sampleUser)]
   \<and> response (submit_corrections body_without_original) =
        \<lparr> status = 500, body = Failure (Message_of TypeError) \<rparr>
   \<and> db_updates (submit_corrections body_without_original) = []"
  using engine_throws_on_missing_argument[of "to_js sampleUser" "to_js sampleAi"
          "[(''document_key'', JStr (str ''doc-1'')), (''corrected'', to_js sampleUser)]"]
  by (simp add: body_without_original_def read_prop_def to_js_def)

end
